theory Spec2Isabelle
  imports Complex_Main
begin

section \<open>The sun path viewer: solar position and illumination\<close>

text \<open>
  The program is \<^verbatim>\<open>src/App.jsx\<close>. Its numbers are JavaScript numbers; they are
  modelled by the real numbers they approximate (\<^typ>\<open>real\<close>, with the \<^const>\<open>sin\<close> and
  \<^const>\<open>cos\<close> of the library standing for \<^verbatim>\<open>Math.sin\<close> and \<^verbatim>\<open>Math.cos\<close>), so that
  every statement about them is one of exact real arithmetic. Rounding is modelled
  apart, in the subsection on double precision, for the two computations where it
  decides a claim. Signed zeros and \<^verbatim>\<open>NaN\<close> are outside the model.
\<close>

subsection \<open>Configuration constants\<close>

definition INIT_LAT :: real where
  "INIT_LAT = 31.2304"

definition INIT_LON :: real where
  "INIT_LON = 121.4737"

definition RADIUS :: real where
  "RADIUS = 50"

subsection \<open>Data\<close>

text \<open>
  What \<^verbatim>\<open>SunCalc.getPosition\<close> returns, as far as the program reads it: the two angles,
  in radians.
\<close>

record suncalc_position =
  pos_altitude :: real
  pos_azimuth :: real

text \<open>
  The object \<^verbatim>\<open>{ x, y, z, altitude, azimuth }\<close> that \<^verbatim>\<open>getSunPosition\<close> returns. The
  coordinate fields carry a prefix, since \<open>x\<close>, \<open>y\<close> and \<open>z\<close> are wanted as variables.
\<close>

record sun_position =
  sun_x :: real
  sun_y :: real
  sun_z :: real
  altitude :: real
  azimuth :: real

subsection \<open>\<^verbatim>\<open>getSunPosition\<close>\<close>

text \<open>
  \<^verbatim>\<open>SunCalc\<close> is a library outside the repository, so the position function is a
  parameter \<open>getPosition\<close>: any function of the date and the two coordinates. The type
  \<open>'d\<close> of dates is left open. The body follows lines 17 to 28 of the source; the unary
  minus of \<^verbatim>\<open>-r_flat * Math.sin(azimuth)\<close> binds tighter than the product.
\<close>

definition getSunPosition ::
  "('d \<Rightarrow> real \<Rightarrow> real \<Rightarrow> suncalc_position) \<Rightarrow> 'd \<Rightarrow> real \<Rightarrow> real \<Rightarrow> sun_position" where
  "getSunPosition getPosition date lat lon =
     (let pos = getPosition date lat lon;
          altitude' = pos_altitude pos;
          azimuth' = pos_azimuth pos;
          r_flat = cos altitude' * RADIUS;
          y = sin altitude' * RADIUS;
          x = (- r_flat) * sin azimuth';
          z = r_flat * cos azimuth'
      in \<lparr>sun_x = x, sun_y = y, sun_z = z, altitude = altitude', azimuth = azimuth'\<rparr>)"

text \<open>
  A position function that answers the same two angles for every date and place. It is
  the simplest function \<^verbatim>\<open>getSunPosition\<close> can be given, and the one the concrete
  evaluations below use.
\<close>

definition fixedPosition :: "real \<Rightarrow> real \<Rightarrow> 'd \<Rightarrow> real \<Rightarrow> real \<Rightarrow> suncalc_position" where
  "fixedPosition a z date lat lon = \<lparr>pos_altitude = a, pos_azimuth = z\<rparr>"

subsection \<open>The scene objects that the lighting effect writes\<close>

text \<open>
  Of the three.js objects only the properties that the second \<^verbatim>\<open>useEffect\<close> (lines 247
  to 280) assigns are kept: the position and intensity of the directional light, the
  intensity and the two colours of the hemisphere light, the position and visibility of
  the sun marker. A colour is the number \<^verbatim>\<open>setHex\<close> receives.
\<close>

record vector3 =
  vec_x :: real
  vec_y :: real
  vec_z :: real

record directional_light =
  dir_position :: vector3
  dir_intensity :: real

record hemisphere_light =
  hemi_intensity :: real
  hemi_color :: nat
  hemi_groundColor :: nat

record sun_mesh =
  mesh_position :: vector3
  mesh_visible :: bool

text \<open>
  \<^verbatim>\<open>sceneRef.current\<close>: three handles, \<^verbatim>\<open>null\<close> until the first effect has built the
  scene.
\<close>

record scene_ref =
  sunMesh :: "sun_mesh option"
  dirLight :: "directional_light option"
  hemiLight :: "hemisphere_light option"

text \<open>
  The handles as the first effect leaves them (lines 172 to 201): a hemisphere light of
  intensity \<open>0.6\<close> with colours \<^verbatim>\<open>0xffffff\<close> and \<^verbatim>\<open>0x444444\<close>, a directional light of
  intensity \<open>30\<close>, a visible marker. The two positions are those three.js gives a new
  light and a new mesh; the lighting effect overwrites them.
\<close>

definition mountedScene :: scene_ref where
  "mountedScene =
     \<lparr>sunMesh = Some \<lparr>mesh_position = \<lparr>vec_x = 0, vec_y = 0, vec_z = 0\<rparr>, mesh_visible = True\<rparr>,
      dirLight = Some \<lparr>dir_position = \<lparr>vec_x = 0, vec_y = 1, vec_z = 0\<rparr>, dir_intensity = 30.0\<rparr>,
      hemiLight = Some \<lparr>hemi_intensity = 0.6, hemi_color = 0xffffff, hemi_groundColor = 0x444444\<rparr>\<rparr>"

text \<open>A scene is mounted when the three handles are there.\<close>

definition mounted :: "scene_ref \<Rightarrow> bool" where
  "mounted ref \<longleftrightarrow> sunMesh ref \<noteq> None \<and> dirLight ref \<noteq> None \<and> hemiLight ref \<noteq> None"

subsection \<open>The lighting effect\<close>

datatype js_error = TypeError

text \<open>
  The body of the second \<^verbatim>\<open>useEffect\<close>. It returns at once while the directional light
  or the marker is missing; it moves both to the sun's position; then it sets the
  intensities, the colours and the marker's visibility, on one branch for the night
  (\<^verbatim>\<open>sunPos.altitude <= 0\<close>) and on one for the day. Writing to a missing hemisphere
  light is JavaScript's \<^verbatim>\<open>TypeError\<close>.
\<close>

definition illuminationUpdate :: "scene_ref \<Rightarrow> sun_position \<Rightarrow> js_error + scene_ref" where
  "illuminationUpdate ref sunPos =
     (case (dirLight ref, sunMesh ref) of
        (Some dl, Some sm) \<Rightarrow>
          (let p = \<lparr>vec_x = sun_x sunPos, vec_y = sun_y sunPos, vec_z = sun_z sunPos\<rparr>;
               sm1 = sm\<lparr>mesh_position := p\<rparr>;
               dl1 = dl\<lparr>dir_position := p\<rparr>
           in if altitude sunPos \<le> 0 then
                (case hemiLight ref of
                   None \<Rightarrow> Inl TypeError
                 | Some hl \<Rightarrow>
                     Inr \<lparr>sunMesh = Some (sm1\<lparr>mesh_visible := False\<rparr>),
                          dirLight = Some (dl1\<lparr>dir_intensity := 0\<rparr>),
                          hemiLight = Some (hl\<lparr>hemi_intensity := 0.05,
                                                hemi_color := 0x111133,
                                                hemi_groundColor := 0x000000\<rparr>)\<rparr>)
              else
                (let angleFactor = sin (altitude sunPos)
                 in case hemiLight ref of
                      None \<Rightarrow> Inl TypeError
                    | Some hl \<Rightarrow>
                        Inr \<lparr>sunMesh = Some (sm1\<lparr>mesh_visible := True\<rparr>),
                             dirLight = Some (dl1\<lparr>dir_intensity := max 0.5 (angleFactor * 3.0)\<rparr>),
                             hemiLight = Some (hl\<lparr>hemi_intensity := 0.4 + angleFactor * 0.4,
                                                   hemi_color := 0xffffff,
                                                   hemi_groundColor := 0x444444\<rparr>)\<rparr>))
      | _ \<Rightarrow> Inr ref)"

text \<open>
  The scene that the effect leaves when it runs on \<open>mountedScene\<close> with the sun in the
  south on the horizon, at \<open>(0, 0, 50)\<close> and altitude \<open>0\<close>: the night branch.
\<close>

definition nightScene :: scene_ref where
  "nightScene =
     \<lparr>sunMesh = Some \<lparr>mesh_position = \<lparr>vec_x = 0, vec_y = 0, vec_z = 50\<rparr>, mesh_visible = False\<rparr>,
      dirLight = Some \<lparr>dir_position = \<lparr>vec_x = 0, vec_y = 0, vec_z = 50\<rparr>, dir_intensity = 0\<rparr>,
      hemiLight = Some \<lparr>hemi_intensity = 0.05, hemi_color = 0x111133, hemi_groundColor = 0x000000\<rparr>\<rparr>"

text \<open>
  The illumination state of a scene: the five properties a renderer reads. It is there
  once the three handles are.
\<close>

record illumination_state =
  directionalIntensity :: real
  ambientIntensity :: real
  ambientColor :: nat
  ambientGroundColor :: nat
  sunMarkerVisible :: bool

definition readIllumination :: "scene_ref \<Rightarrow> illumination_state option" where
  "readIllumination ref =
     (case (dirLight ref, hemiLight ref, sunMesh ref) of
        (Some dl, Some hl, Some sm) \<Rightarrow>
          Some \<lparr>directionalIntensity = dir_intensity dl,
                ambientIntensity = hemi_intensity hl,
                ambientColor = hemi_color hl,
                ambientGroundColor = hemi_groundColor hl,
                sunMarkerVisible = mesh_visible sm\<rparr>
      | _ \<Rightarrow> None)"

text \<open>What a renderer sees after the effect has run; nothing, if it threw.\<close>

definition illuminationAfterUpdate :: "scene_ref \<Rightarrow> sun_position \<Rightarrow> illumination_state option" where
  "illuminationAfterUpdate ref sunPos =
     (case illuminationUpdate ref sunPos of
        Inl e \<Rightarrow> None
      | Inr ref' \<Rightarrow> readIllumination ref')"

text \<open>
  Lines 259 to 279 by themselves, as a function of \<^verbatim>\<open>sunPos.altitude\<close>: the values that
  the two branches assign. The spec calls this function \<^verbatim>\<open>deriveIllumination\<close>. That the
  effect stores exactly these values is \<open>illuminationAfterUpdate_eq\<close> below.
\<close>

definition deriveIllumination :: "real \<Rightarrow> illumination_state" where
  "deriveIllumination alt =
     (if alt \<le> 0 then
        \<lparr>directionalIntensity = 0,
         ambientIntensity = 0.05,
         ambientColor = 0x111133,
         ambientGroundColor = 0x000000,
         sunMarkerVisible = False\<rparr>
      else
        (let angleFactor = sin alt
         in \<lparr>directionalIntensity = max 0.5 (angleFactor * 3.0),
             ambientIntensity = 0.4 + angleFactor * 0.4,
             ambientColor = 0xffffff,
             ambientGroundColor = 0x444444,
             sunMarkerVisible = True\<rparr>))"

subsection \<open>\<^verbatim>\<open>formatTime\<close>\<close>

text \<open>
  The minute of the day comes from a slider with integer steps, so \<^verbatim>\<open>formatTime\<close> is
  modelled on \<^typ>\<open>int\<close>. \<^verbatim>\<open>Math.floor(totalMinutes / 60)\<close> is then the floor division of
  the integers, and \<^verbatim>\<open>%\<close> is JavaScript's remainder, which takes the sign of the
  dividend.
\<close>

definition js_remainder :: "int \<Rightarrow> int \<Rightarrow> int" where
  "js_remainder a b = sgn a * (\<bar>a\<bar> mod \<bar>b\<bar>)"

definition digit_char :: "nat \<Rightarrow> char" where
  "digit_char d = ''0123456789'' ! d"

text \<open>\<^verbatim>\<open>Number.prototype.toString\<close> on an integer: its decimal digits, after a minus sign
  when it is negative.\<close>

fun digits :: "nat \<Rightarrow> string" where
  "digits n = (if n < 10 then [digit_char n] else digits (n div 10) @ [digit_char (n mod 10)])"

declare digits.simps [simp del]

definition toString :: "int \<Rightarrow> string" where
  "toString n = (if n < 0 then CHR ''-'' # digits (nat (- n)) else digits (nat n))"

text \<open>
  \<^verbatim>\<open>String.prototype.padStart\<close>: a string that is long enough, or an empty filler, leaves
  the string as it is; otherwise the filler is repeated and cut to the missing length.
\<close>

definition padStart :: "nat \<Rightarrow> string \<Rightarrow> string \<Rightarrow> string" where
  "padStart targetLength padString s =
     (if targetLength \<le> length s \<or> padString = [] then s
      else take (targetLength - length s)
             (concat (replicate (targetLength - length s) padString)) @ s)"

definition formatTime :: "int \<Rightarrow> string" where
  "formatTime totalMinutes =
     (let h = totalMinutes div 60;
          m = js_remainder totalMinutes 60
      in padStart 2 ''0'' (toString h) @ '':'' @ padStart 2 ''0'' (toString m))"

text \<open>
  What the spec of \<^verbatim>\<open>formatTime\<close> asks for, in its own words: a number below \<open>100\<close>
  written with exactly two decimal digits, and the string \<open>HH:MM\<close> built from the hour
  \<open>\<lfloor>totalMinutes / 60\<rfloor>\<close> and the minute \<open>totalMinutes mod 60\<close>.
\<close>

definition spec_two_digits :: "nat \<Rightarrow> string" where
  "spec_two_digits n = [digit_char (n div 10), digit_char (n mod 10)]"

definition spec_formatTime :: "int \<Rightarrow> string" where
  "spec_formatTime totalMinutes =
     spec_two_digits (nat (totalMinutes div 60)) @ [CHR '':''] @
     spec_two_digits (nat (totalMinutes mod 60))"

subsection \<open>Double precision\<close>

text \<open>
  Two claims change their truth value when the reals are replaced by the doubles the
  program computes with, so the two computations they are about are modelled a second
  time, with every operation rounded. A double is the real number it denotes.

  \<open>fl\<close> is the rounding of IEEE 754 binary64, to the nearest double with ties to the even
  significand: the unit in the last place of \<open>x\<close> is \<open>2\<close> to the power
  \<open>\<lfloor>log\<^sub>2 \<bar>x\<bar>\<rfloor> - 52\<close>, and never below \<open>2\<^sup>-\<^sup>1\<^sup>0\<^sup>7\<^sup>4\<close>, the spacing of the subnormal numbers.
  Overflow is left out: no number here comes near \<open>2\<^sup>1\<^sup>0\<^sup>2\<^sup>4\<close>.
\<close>

definition round_even :: "real \<Rightarrow> int" where
  "round_even x =
     (let f = \<lfloor>x\<rfloor>; d = x - of_int f
      in if d < 1 / 2 then f else if 1 / 2 < d then f + 1 else if even f then f else f + 1)"

definition ulp_exponent :: "real \<Rightarrow> int" where
  "ulp_exponent x = max (- 1074) (\<lfloor>log 2 \<bar>x\<bar>\<rfloor> - 52)"

definition fl :: "real \<Rightarrow> real" where
  "fl x =
     (if x = 0 then 0
      else of_int (round_even (x / 2 powr of_int (ulp_exponent x))) *
           2 powr of_int (ulp_exponent x))"

text \<open>
  \<^verbatim>\<open>Math.sin\<close> and \<^verbatim>\<open>Math.cos\<close> on doubles. ECMAScript leaves their last bit to the
  implementation; the model takes the double nearest to the exact value.
\<close>

definition Math_sin :: "real \<Rightarrow> real" where
  "Math_sin x = fl (sin x)"

definition Math_cos :: "real \<Rightarrow> real" where
  "Math_cos x = fl (cos x)"

text \<open>
  Lines 17 to 28 again, each product rounded. The unary minus is exact, and \<open>50\<close> is a
  double.
\<close>

definition getSunPosition_double ::
  "('d \<Rightarrow> real \<Rightarrow> real \<Rightarrow> suncalc_position) \<Rightarrow> 'd \<Rightarrow> real \<Rightarrow> real \<Rightarrow> sun_position" where
  "getSunPosition_double getPosition date lat lon =
     (let pos = getPosition date lat lon;
          altitude' = pos_altitude pos;
          azimuth' = pos_azimuth pos;
          r_flat = fl (Math_cos altitude' * RADIUS);
          y = fl (Math_sin altitude' * RADIUS);
          x = fl ((- r_flat) * Math_sin azimuth');
          z = fl (r_flat * Math_cos azimuth')
      in \<lparr>sun_x = x, sun_y = y, sun_z = z, altitude = altitude', azimuth = azimuth'\<rparr>)"


text \<open>
  Two doubles for the evaluations below: an altitude \<open>4.7 \<sqdot> 10\<^sup>-\<^sup>9\<close> under the zenith,
  \<^verbatim>\<open>0x1.921fb53p+0\<close>, and the smallest positive double, \<^verbatim>\<open>5e-324\<close>.
\<close>

definition nearZenith :: real where
  "nearZenith = 421657427 / 268435456"

definition minSubnormal :: real where
  "minSubnormal = 2 powr (- 1074)"

section \<open>Properties of \<^verbatim>\<open>getSunPosition\<close>\<close>

text \<open>The fields of the result, one equation each.\<close>

lemma getSunPosition_sel:
  "sun_x (getSunPosition gp d la lo) =
     - (cos (pos_altitude (gp d la lo)) * RADIUS) * sin (pos_azimuth (gp d la lo))"
  "sun_y (getSunPosition gp d la lo) = sin (pos_altitude (gp d la lo)) * RADIUS"
  "sun_z (getSunPosition gp d la lo) =
     cos (pos_altitude (gp d la lo)) * RADIUS * cos (pos_azimuth (gp d la lo))"
  "altitude (getSunPosition gp d la lo) = pos_altitude (gp d la lo)"
  "azimuth (getSunPosition gp d la lo) = pos_azimuth (gp d la lo)"
  by (simp_all add: getSunPosition_def Let_def)

text \<open>Pythagoras, twice: the algebra behind the sphere.\<close>

lemma sphere_algebra:
  fixes c s sa cz R :: real
  shows "(- (c * R) * s)\<^sup>2 + (sa * R)\<^sup>2 + (c * R * cz)\<^sup>2 =
         R\<^sup>2 * (c\<^sup>2 * (s\<^sup>2 + cz\<^sup>2) + sa\<^sup>2)"
  by (simp add: power2_eq_square algebra_simps)

text \<open>Between \<open>-\<pi>/2\<close> and \<open>\<pi>/2\<close> the sine has the sign of its argument.\<close>

lemma sin_sign:
  fixes a :: real
  assumes "- (pi / 2) < a" and "a \<le> pi / 2"
  shows "0 \<le> sin a \<longleftrightarrow> 0 \<le> a"
proof (cases "0 \<le> a")
  case True
  then have "0 \<le> sin a"
    using assms pi_gt_zero by (intro sin_ge_zero) auto
  with True show ?thesis by simp
next
  case False
  then have "0 < sin (- a)"
    using assms by (intro sin_gt_zero) auto
  with False show ?thesis by simp
qed

text \<open>
  Two angles of the half-open turn \<open>(-\<pi>, \<pi>]\<close> with the same sine and the same cosine
  are equal: their difference is a multiple of \<open>2\<pi>\<close> smaller than \<open>2\<pi>\<close>.
\<close>

lemma angle_eq:
  fixes a b :: real
  assumes "sin a = sin b" and "cos a = cos b"
    and "- pi < a" and "a \<le> pi" and "- pi < b" and "b \<le> pi"
  shows "a = b"
proof -
  have "cos (a - b) = (cos b)\<^sup>2 + (sin b)\<^sup>2"
    using assms by (simp add: cos_diff power2_eq_square)
  then have "cos (a - b) = 1" by simp
  then obtain n :: int where n: "a - b = of_int n * 2 * pi"
    using cos_one_2pi_int by blast
  have "\<bar>a - b\<bar> < 2 * pi" using assms by linarith
  then have "\<bar>of_int n * (2 * pi)\<bar> < 1 * (2 * pi)"
    using n by (simp add: mult.assoc)
  then have "\<bar>real_of_int n\<bar> < 1"
    using pi_gt_zero by (simp add: abs_mult)
  then have "n = 0" by linarith
  with n show ?thesis by simp
qed

text \<open>
  Off the poles the vector determines the altitude, and then, within one turn, the
  azimuth.
\<close>

lemma vector_determines_angles:
  fixes a b u v :: real
  assumes x: "- (cos a * RADIUS) * sin u = - (cos b * RADIUS) * sin v"
    and y: "sin a * RADIUS = sin b * RADIUS"
    and z: "cos a * RADIUS * cos u = cos b * RADIUS * cos v"
    and ra: "- (pi / 2) < a" "a < pi / 2" and rb: "- (pi / 2) < b" "b < pi / 2"
    and ru: "- pi < u" "u \<le> pi" and rv: "- pi < v" "v \<le> pi"
  shows "a = b \<and> u = v"
proof -
  from y have "sin a = sin b" by (simp add: RADIUS_def)
  moreover have "- (pi / 2) \<le> a" "a \<le> pi / 2" "- (pi / 2) \<le> b" "b \<le> pi / 2"
    using ra rb by linarith+
  ultimately have ab: "a = b" by (rule sin_inj_pi [rotated 4])
  have c: "0 < cos b" using rb by (rule cos_gt_zero_pi)
  from x ab have "cos b * sin u = cos b * sin v" by (simp add: RADIUS_def)
  with c have s: "sin u = sin v" by simp
  from z ab have "cos b * cos u = cos b * cos v" by (simp add: RADIUS_def)
  with c have "cos u = cos v" by simp
  with s have "u = v" using ru rv by (rule angle_eq)
  with ab show ?thesis by simp
qed

text \<open>The fields of the result at a position function that answers fixed angles.\<close>

lemma getSunPosition_fixed:
  "altitude (getSunPosition (fixedPosition a z) d la lo) = a"
  "azimuth (getSunPosition (fixedPosition a z) d la lo) = z"
  "sun_x (getSunPosition (fixedPosition a z) d la lo) = - (cos a * RADIUS) * sin z"
  "sun_y (getSunPosition (fixedPosition a z) d la lo) = sin a * RADIUS"
  "sun_z (getSunPosition (fixedPosition a z) d la lo) = cos a * RADIUS * cos z"
  by (simp_all add: getSunPosition_sel fixedPosition_def)

section \<open>Properties of the lighting\<close>

text \<open>
  In a mounted scene the effect leaves exactly the values of \<open>deriveIllumination\<close> at the
  sun's altitude, whatever the scene held before.
\<close>

lemma illuminationAfterUpdate_eq:
  assumes "mounted ref"
  shows "illuminationAfterUpdate ref sunPos = Some (deriveIllumination (altitude sunPos))"
proof -
  from assms obtain sm dl hl
    where "sunMesh ref = Some sm" and "dirLight ref = Some dl" and "hemiLight ref = Some hl"
    by (auto simp add: mounted_def)
  then show ?thesis
    by (simp add: illuminationAfterUpdate_def illuminationUpdate_def readIllumination_def
          deriveIllumination_def Let_def)
qed

lemma mounted_mountedScene: "mounted mountedScene"
  by (simp add: mounted_def mountedScene_def)

lemma deriveIllumination_night:
  "alt \<le> 0 \<Longrightarrow> deriveIllumination alt =
     \<lparr>directionalIntensity = 0, ambientIntensity = 0.05, ambientColor = 0x111133,
      ambientGroundColor = 0, sunMarkerVisible = False\<rparr>"
  by (simp add: deriveIllumination_def)

lemma deriveIllumination_day:
  "0 < alt \<Longrightarrow> deriveIllumination alt =
     \<lparr>directionalIntensity = max 0.5 (sin alt * 3), ambientIntensity = 0.4 + sin alt * 0.4,
      ambientColor = 0xffffff, ambientGroundColor = 0x444444, sunMarkerVisible = True\<rparr>"
  by (simp add: deriveIllumination_def Let_def)

lemma directionalIntensity_night:
  "alt \<le> 0 \<Longrightarrow> directionalIntensity (deriveIllumination alt) = 0"
  by (simp add: deriveIllumination_night)

lemma directionalIntensity_day:
  "0 < alt \<Longrightarrow> directionalIntensity (deriveIllumination alt) = max (1 / 2) (sin alt * 3)"
  by (simp add: deriveIllumination_day)

text \<open>
  Running the effect again with the same sun position changes nothing: every property
  it reads back it has just written.
\<close>

lemma illuminationUpdate_idem:
  assumes "illuminationUpdate ref sunPos = Inr ref1"
  shows "illuminationUpdate ref1 sunPos = Inr ref1"
proof (cases "dirLight ref")
  case None
  with assms show ?thesis by (simp add: illuminationUpdate_def)
next
  case dl: (Some dl)
  show ?thesis
  proof (cases "sunMesh ref")
    case None
    with assms dl show ?thesis by (simp add: illuminationUpdate_def)
  next
    case sm: (Some sm)
    show ?thesis
    proof (cases "hemiLight ref")
      case None
      with assms dl sm show ?thesis
        by (simp add: illuminationUpdate_def Let_def split: if_splits)
    next
      case (Some hl)
      with assms dl sm show ?thesis
        by (auto simp add: illuminationUpdate_def Let_def split: if_splits)
    qed
  qed
qed

lemma mounted_nightScene: "mounted nightScene"
  by (simp add: mounted_def nightScene_def)

lemma illuminationUpdate_mountedScene_night:
  "illuminationUpdate mountedScene (getSunPosition (fixedPosition 0 0) (0::nat) 0 0) =
     Inr nightScene"
  by (simp add: illuminationUpdate_def mountedScene_def nightScene_def getSunPosition_fixed
        RADIUS_def Let_def)

section \<open>Properties of \<^verbatim>\<open>formatTime\<close>\<close>

lemma js_remainder_nonneg: "0 \<le> a \<Longrightarrow> js_remainder a 60 = a mod 60"
  by (cases "a = 0") (simp_all add: js_remainder_def)

lemma digits_one: "n < 10 \<Longrightarrow> digits n = [digit_char n]"
  by (subst digits.simps) simp

lemma digits_two:
  assumes "10 \<le> n" and "n < 100"
  shows "digits n = [digit_char (n div 10), digit_char (n mod 10)]"
proof -
  have "n div 10 < 10" using assms by simp
  then have "digits (n div 10) = [digit_char (n div 10)]" by (rule digits_one)
  with assms show ?thesis by (subst digits.simps) simp
qed

lemma digit_char_0: "digit_char 0 = CHR ''0''"
  by (simp add: digit_char_def)

text \<open>Below \<open>100\<close>, padding the digits to length two writes the number with two digits.\<close>

lemma padStart_digits:
  assumes "n < 100"
  shows "padStart 2 ''0'' (digits n) = spec_two_digits n"
proof (cases "n < 10")
  case True
  then show ?thesis
    by (simp add: digits_one padStart_def spec_two_digits_def digit_char_0)
next
  case False
  with assms show ?thesis
    by (simp add: digits_two padStart_def spec_two_digits_def)
qed

section \<open>Properties of the double-precision model\<close>

text \<open>Rounding to an integer: near an integer, above zero, below an integer.\<close>

lemma round_even_near:
  assumes "of_int n - 1 / 2 < x" and "x \<le> of_int n"
  shows "round_even x = n"
proof (cases "x = of_int n")
  case True
  then show ?thesis by (simp add: round_even_def)
next
  case False
  with assms have "of_int (n - 1) \<le> x" and "x < of_int (n - 1) + 1"
    by simp_all
  then have f: "\<lfloor>x\<rfloor> = n - 1" by linarith
  have "1 / 2 < x - of_int (n - 1)" using assms by simp
  with f show ?thesis by (simp add: round_even_def)
qed

lemma round_even_nonneg: "0 \<le> x \<Longrightarrow> 0 \<le> round_even x"
  by (auto simp add: round_even_def Let_def)

lemma round_even_le:
  assumes "x \<le> of_int n"
  shows "round_even x \<le> n"
proof (cases "x = of_int n")
  case True
  then show ?thesis by (simp add: round_even_def)
next
  case False
  with assms have "x < of_int n" by simp
  then have "\<lfloor>x\<rfloor> < n" by linarith
  then show ?thesis by (auto simp add: round_even_def Let_def)
qed

text \<open>
  Rounding does not cross a power of two: every power of two from \<open>2\<^sup>-\<^sup>1\<^sup>0\<^sup>7\<^sup>4\<close> on is a
  double.
\<close>

lemma fl_le_pow2:
  assumes "0 \<le> y" and "y \<le> 2 powr of_int k" and "- 1074 \<le> k"
  shows "0 \<le> fl y \<and> fl y \<le> 2 powr of_int k"
proof (cases "y = 0")
  case True
  then show ?thesis by (simp add: fl_def)
next
  case False
  with assms have pos: "0 < y" by simp
  define E where "E = ulp_exponent y"
  have "log 2 y \<le> of_int k"
    using pos assms(2) by (simp add: log_le_iff)
  then have "\<lfloor>log 2 y\<rfloor> \<le> k" by linarith
  with assms(3) pos have Ek: "E \<le> k" by (simp add: E_def ulp_exponent_def)
  define N :: int where "N = 2 ^ nat (k - E)"
  have "(2::real) powr of_int k = 2 powr (of_int (k - E) + of_int E)" by simp
  also have "\<dots> = 2 powr of_int (k - E) * 2 powr of_int E"
    by (simp only: powr_add)
  also have "2 powr of_int (k - E) = (2::real) ^ nat (k - E)"
    using Ek by (simp add: powr_realpow [symmetric])
  finally have split: "(2::real) powr of_int k = of_int N * 2 powr of_int E"
    by (simp add: N_def)
  have upos: "0 < (2::real) powr of_int E" by simp
  have "y / 2 powr of_int E \<le> of_int N"
    using assms(2) upos by (simp add: split pos_divide_le_eq)
  then have up: "round_even (y / 2 powr of_int E) \<le> N" by (rule round_even_le)
  have "0 \<le> y / 2 powr of_int E" using pos by simp
  then have lo: "0 \<le> round_even (y / 2 powr of_int E)" by (rule round_even_nonneg)
  have "fl y = of_int (round_even (y / 2 powr of_int E)) * 2 powr of_int E"
    using False by (simp add: fl_def E_def)
  moreover have "real_of_int (round_even (y / 2 powr of_int E)) * 2 powr of_int E \<le>
      real_of_int N * 2 powr of_int E"
    using up upos by simp
  moreover have "0 \<le> real_of_int (round_even (y / 2 powr of_int E)) * 2 powr of_int E"
    using lo by simp
  ultimately show ?thesis by (simp add: split)
qed

text \<open>Less than half a unit in the last place under \<open>1\<close> rounds to \<open>1\<close>.\<close>

lemma fl_one_nbhd:
  assumes "1 - 1 / 2 ^ 54 < y" and "y \<le> 1"
  shows "fl y = 1"
proof (cases "y = 1")
  case True
  have "ulp_exponent 1 = - 52" by (simp add: ulp_exponent_def)
  moreover have "1 / 2 powr (- 52) = real_of_int (2 ^ 52)"
    by (simp add: powr_minus powr_numeral)
  then have "round_even (1 / 2 powr (- 52)) = 2 ^ 52"
    by (simp only: round_even_near [of "2 ^ 52"]) 
  ultimately show ?thesis using True
    by (simp add: fl_def powr_minus powr_numeral)
next
  case False
  have half: "(1::real) / 2 \<le> 1 - 1 / 2 ^ 54" by simp
  with assms False have r: "1 / 2 \<le> y" "y < 1" "0 < y" by simp_all
  then have "\<lfloor>log 2 y\<rfloor> = - 1"
    by (simp add: floor_log_eq_powr_iff powr_minus)
  then have E: "ulp_exponent y = - 53"
    using r by (simp add: ulp_exponent_def)
  have u: "(2::real) powr (- 53) = 1 / 2 ^ 53"
    by (simp add: powr_minus powr_numeral divide_simps)
  have "y / (1 / 2 ^ 53) = y * 2 ^ 53" by simp
  moreover have "real_of_int (2 ^ 53) - 1 / 2 < y * 2 ^ 53"
    using assms(1) by simp
  moreover have "y * 2 ^ 53 \<le> real_of_int (2 ^ 53)"
    using assms(2) by simp
  ultimately have "round_even (y / (1 / 2 ^ 53)) = 2 ^ 53"
    by (simp only: round_even_near [of "2 ^ 53"])
  then show ?thesis
    using r E by (simp add: fl_def u)
qed

text \<open>Less than half the smallest double under \<open>0\<close> rounds to \<open>0\<close>.\<close>

lemma fl_underflow:
  assumes "- (2 powr (- 1075)) < y" and "y \<le> 0"
  shows "fl y = 0"
proof (cases "y = 0")
  case True
  then show ?thesis by (simp add: fl_def)
next
  case False
  with assms have neg: "y < 0" by simp
  have "\<bar>y\<bar> < 2 powr (- 1075)" using assms neg by simp
  then have "log 2 \<bar>y\<bar> < - 1075"
    using neg by (simp add: log_less_iff)
  then have "\<lfloor>log 2 \<bar>y\<bar>\<rfloor> - 52 \<le> - 1074" by linarith
  then have E: "ulp_exponent y = - 1074"
    by (simp add: ulp_exponent_def)
  have "(2::real) powr (- 1075) = 2 powr (- 1074 + - 1)" by simp
  also have "\<dots> = 2 powr (- 1074) * 2 powr (- 1)" by (rule powr_add)
  also have "(2::real) powr (- 1) = 1 / 2" by (simp add: powr_minus divide_simps)
  finally have h: "(2::real) powr (- 1075) = 2 powr (- 1074) / 2" by (simp only: times_divide_eq_right mult_1_right)
  have upos: "0 < (2::real) powr (- 1074)" by simp
  have "- (1 / 2) < y / 2 powr (- 1074)"
    using assms(1) upos unfolding h by (simp add: pos_less_divide_eq)
  moreover have "y / 2 powr (- 1074) \<le> 0"
    using neg upos by (simp add: divide_le_0_iff)
  ultimately have "round_even (y / 2 powr (- 1074)) = 0"
    using round_even_near [of 0 "y / 2 powr (- 1074)"] by simp
  then show ?thesis using E by (simp add: fl_def)
qed



lemma fl_one: "fl 1 = 1"
  by (rule fl_one_nbhd) simp_all

text \<open>
  The cosine at \<open>nearZenith\<close>, from its Maclaurin polynomial of degree \<open>14\<close> and the
  remainder of order \<open>16\<close>: positive, and below \<open>2\<^sup>-\<^sup>2\<^sup>7\<close>.
\<close>

lemma cos_poly16:
  "(\<Sum>m<16. cos_coeff m * nearZenith ^ m) - nearZenith ^ 16 / fact 16 > 0 \<and>
   (\<Sum>m<16. cos_coeff m * nearZenith ^ m) + nearZenith ^ 16 / fact 16 < 1 / 2 ^ 27"
  unfolding nearZenith_def
  by (simp add: cos_coeff_def lessThan_nat_numeral lessThan_Suc fact_numeral power_divide)

lemma cos_nearZenith: "0 < cos nearZenith \<and> cos nearZenith < 1 / 2 ^ 27"
proof -
  have pos: "0 < nearZenith" by (simp add: nearZenith_def)
  then obtain t where
    eq: "cos nearZenith = (\<Sum>m<16. cos_coeff m * nearZenith ^ m) +
           (cos (t + 1 / 2 * real 16 * pi) / fact 16) * nearZenith ^ 16"
    using Maclaurin_cos_expansion2 [of nearZenith 16] by auto
  define c where "c = cos (t + 1 / 2 * real 16 * pi)"
  define w where "w = nearZenith ^ 16 / fact 16"
  have c: "- 1 \<le> c" "c \<le> 1" by (simp_all add: c_def)
  have w: "0 \<le> w" using pos by (simp add: w_def)
  have "c / fact 16 * nearZenith ^ 16 = c * w" by (simp add: w_def)
  moreover have "- 1 * w \<le> c * w" and "c * w \<le> 1 * w"
    using c w by (intro mult_right_mono; simp)+
  ultimately have "- w \<le> c / fact 16 * nearZenith ^ 16" "c / fact 16 * nearZenith ^ 16 \<le> w"
    by simp_all
  then have "(\<Sum>m<16. cos_coeff m * nearZenith ^ m) - w \<le> cos nearZenith"
    and "cos nearZenith \<le> (\<Sum>m<16. cos_coeff m * nearZenith ^ m) + w"
    unfolding eq c_def by linarith+
  with cos_poly16 show ?thesis unfolding w_def by linarith
qed

text \<open>So \<open>nearZenith\<close> is under the zenith, and its sine is within \<open>2\<^sup>-\<^sup>5\<^sup>4\<close> of \<open>1\<close>.\<close>

lemma nearZenith_range: "0 < nearZenith \<and> nearZenith < pi / 2"
proof -
  have pos: "0 < nearZenith" and le2: "nearZenith \<le> 2" by (simp_all add: nearZenith_def)
  have "nearZenith < pi / 2"
  proof (rule ccontr)
    assume "\<not> nearZenith < pi / 2"
    then have "pi / 2 \<le> nearZenith" by simp
    moreover have "0 \<le> pi / 2" using pi_gt_zero by simp
    moreover have "nearZenith \<le> pi" using le2 pi_ge_two by linarith
    ultimately have "cos nearZenith \<le> cos (pi / 2)"
      by (intro cos_monotone_0_pi_le)
    with cos_nearZenith show False by simp
  qed
  with pos show ?thesis by simp
qed



lemma fl_zero: "fl 0 = 0"
  by (simp add: fl_def)

text \<open>The two sample numbers are doubles.\<close>

lemma fl_nearZenith: "fl nearZenith = nearZenith"
proof -
  have "\<lfloor>log 2 nearZenith\<rfloor> = 0"
    by (simp add: floor_log_eq_powr_iff nearZenith_def)
  then have E: "ulp_exponent nearZenith = - 52"
    by (simp add: ulp_exponent_def nearZenith_def)
  have "nearZenith / 2 powr (- 52) = real_of_int (421657427 * 2 ^ 24)"
    by (simp add: nearZenith_def powr_minus powr_numeral)
  then have "round_even (nearZenith / 2 powr (- 52)) = 421657427 * 2 ^ 24"
    by (simp only: round_even_near [of "421657427 * 2 ^ 24"])
  then show ?thesis
    using E by (simp add: fl_def nearZenith_def powr_minus powr_numeral)
qed

lemma fl_minSubnormal: "fl minSubnormal = minSubnormal"
proof -
  have pos: "0 < minSubnormal" by (simp add: minSubnormal_def)
  have "log 2 minSubnormal = - 1074" by (simp add: minSubnormal_def)
  then have E: "ulp_exponent minSubnormal = - 1074"
    using pos by (simp add: ulp_exponent_def)
  have "minSubnormal / 2 powr (- 1074) = real_of_int 1"
    by (simp add: minSubnormal_def)
  then have "round_even (minSubnormal / 2 powr (- 1074)) = 1"
    by (simp only: round_even_near [of 1])
  then show ?thesis
    using E pos by (simp add: fl_def) (simp add: minSubnormal_def)
qed

lemma minSubnormal_small: "0 < minSubnormal \<and> minSubnormal < 1 / 2 ^ 54"
proof -
  have "(2::real) powr (- 1074) < 2 powr (- 54)"
    by (intro powr_less_mono) simp_all
  moreover have "(2::real) powr (- 54) = 1 / 2 ^ 54"
    by (simp add: powr_minus powr_numeral divide_simps)
  ultimately show ?thesis by (simp add: minSubnormal_def)
qed

lemma cos_ge_one_minus:
  fixes x :: real
  assumes "0 \<le> x" and "x \<le> 1"
  shows "1 - x \<le> cos x"
proof -
  have s: "0 \<le> sin (x / 2)"
    using assms pi_ge_two by (intro sin_ge_zero) linarith+
  have "sin (x / 2) \<le> x / 2"
    using assms by (intro sin_x_le_x) simp
  moreover have "sin (x / 2) \<le> 1" by simp
  ultimately have "sin (x / 2) * sin (x / 2) \<le> (x / 2) * 1"
    using s by (intro mult_mono) simp_all
  moreover have "cos x = 1 - 2 * (sin (x / 2))\<^sup>2"
    using cos_double_sin [of "x / 2"] by simp
  ultimately show ?thesis by (simp add: power2_eq_square)
qed

lemma Math_cos_minSubnormal: "Math_cos minSubnormal = 1"
proof -
  have "1 - minSubnormal \<le> cos minSubnormal"
    using minSubnormal_small by (intro cos_ge_one_minus) simp_all
  then have "1 - 1 / 2 ^ 54 < cos minSubnormal"
    using minSubnormal_small by linarith
  then show ?thesis
    unfolding Math_cos_def by (intro fl_one_nbhd) simp_all
qed

lemma Math_sin_minSubnormal: "0 \<le> Math_sin minSubnormal \<and> Math_sin minSubnormal \<le> 2 powr (- 1074)"
proof -
  have "minSubnormal < 1 / 2 ^ 54" using minSubnormal_small by simp
  also have "(1::real) / 2 ^ 54 \<le> 2" by simp
  finally have "minSubnormal \<le> pi" using pi_ge_two by linarith
  moreover have pos: "0 \<le> minSubnormal" using minSubnormal_small by simp
  ultimately have "0 \<le> sin minSubnormal" by (intro sin_ge_zero)
  moreover have "sin minSubnormal \<le> 2 powr of_int (- 1074)"
    using pos sin_x_le_x [of minSubnormal] by (simp add: minSubnormal_def)
  ultimately have "0 \<le> fl (sin minSubnormal) \<and> fl (sin minSubnormal) \<le> 2 powr of_int (- 1074)"
    by (intro fl_le_pow2) simp_all
  then show ?thesis by (simp add: Math_sin_def)
qed

text \<open>At \<open>nearZenith\<close> the flat radius is at most \<open>2\<^sup>-\<^sup>2\<^sup>1\<close>.\<close>

lemma r_flat_nearZenith:
  "0 \<le> fl (Math_cos nearZenith * RADIUS) \<and> fl (Math_cos nearZenith * RADIUS) \<le> 2 powr (- 21)"
proof -
  have p27: "(2::real) powr of_int (- 27) = 1 / 2 ^ 27"
    by (simp add: powr_minus powr_numeral divide_simps)
  have p21: "(2::real) powr of_int (- 21) = 1 / 2 ^ 21"
    by (simp add: powr_minus powr_numeral divide_simps)
  have "0 \<le> cos nearZenith" and "cos nearZenith \<le> 2 powr of_int (- 27)"
    using cos_nearZenith by (simp_all only: p27) simp_all
  then have "0 \<le> fl (cos nearZenith) \<and> fl (cos nearZenith) \<le> 2 powr of_int (- 27)"
    by (intro fl_le_pow2) simp_all
  then have c: "0 \<le> Math_cos nearZenith" "Math_cos nearZenith \<le> 1 / 2 ^ 27"
    unfolding p27 Math_cos_def by blast+
  have "Math_cos nearZenith * 50 \<le> 1 / 2 ^ 27 * 50"
    using c by (intro mult_right_mono) simp_all
  also have "\<dots> \<le> 1 / 2 ^ 21" by simp
  finally have "Math_cos nearZenith * RADIUS \<le> 2 powr of_int (- 21)"
    unfolding p21 by (simp add: RADIUS_def)
  moreover have "0 \<le> Math_cos nearZenith * RADIUS"
    using c by (simp add: RADIUS_def)
  ultimately have "0 \<le> fl (Math_cos nearZenith * RADIUS) \<and>
      fl (Math_cos nearZenith * RADIUS) \<le> 2 powr of_int (- 21)"
    by (intro fl_le_pow2) simp_all
  then show ?thesis by simp
qed

lemma getSunPosition_double_sel:
  "sun_x (getSunPosition_double (fixedPosition a z) d la lo) =
     fl (- fl (Math_cos a * RADIUS) * Math_sin z)"
  "sun_y (getSunPosition_double (fixedPosition a z) d la lo) = fl (Math_sin a * RADIUS)"
  "sun_z (getSunPosition_double (fixedPosition a z) d la lo) =
     fl (fl (Math_cos a * RADIUS) * Math_cos z)"
  "altitude (getSunPosition_double (fixedPosition a z) d la lo) = a"
  "azimuth (getSunPosition_double (fixedPosition a z) d la lo) = z"
  by (simp_all add: getSunPosition_double_def fixedPosition_def Let_def)

lemma double_x_zero: "fl (- fl (Math_cos nearZenith * RADIUS) * Math_sin 0) = 0"
  by (simp add: Math_sin_def fl_zero)

lemma double_x_underflow: "fl (- fl (Math_cos nearZenith * RADIUS) * Math_sin minSubnormal) = 0"
proof -
  define r where "r = fl (Math_cos nearZenith * RADIUS)"
  define s where "s = Math_sin minSubnormal"
  have r: "0 \<le> r" "r \<le> 2 powr (- 21)"
    using r_flat_nearZenith by (simp_all add: r_def)
  have s: "0 \<le> s" "s \<le> 2 powr (- 1074)"
    using Math_sin_minSubnormal by (simp_all add: s_def)
  have "r * s \<le> 2 powr (- 21) * 2 powr (- 1074)"
    using r s by (intro mult_mono) simp_all
  also have "\<dots> = 2 powr (- 21 + - 1074)" by (simp only: powr_add)
  also have "\<dots> < 2 powr (- 1075)" by (intro powr_less_mono) simp_all
  finally have "- (2 powr (- 1075)) < - r * s" by simp
  moreover have "- r * s \<le> 0" using r s by simp
  ultimately have "fl (- r * s) = 0" by (rule fl_underflow)
  then show ?thesis by (simp add: r_def s_def)
qed

section \<open>The claims about \<^verbatim>\<open>getSunPosition\<close>\<close>

text \<open>
  C1. For every date, latitude and longitude, and whatever the position function is,
  \<^verbatim>\<open>getSunPosition\<close> asks it once for the two angles of that date and place and returns
  the vector \<open>x = - (cos altitude * 50) * sin azimuth\<close>, \<open>y = sin altitude * 50\<close>,
  \<open>z = (cos altitude * 50) * cos azimuth\<close> together with the two angles as they came.
\<close>

theorem getSunPosition_formula:
  "getSunPosition getPosition date lat lon =
     (let a = pos_altitude (getPosition date lat lon);
          z = pos_azimuth (getPosition date lat lon)
      in \<lparr>sun_x = - (cos a * 50) * sin z,
          sun_y = sin a * 50,
          sun_z = (cos a * 50) * cos z,
          altitude = a,
          azimuth = z\<rparr>)"
  by (simp add: getSunPosition_def RADIUS_def Let_def)

text \<open>
  C7. The boundary values. With the sun at the zenith (altitude \<open>\<pi>/2\<close>) the vector is
  \<open>(0, RADIUS, 0)\<close> whatever the azimuth; on the horizon (altitude \<open>0\<close>) it is
  \<open>(0, 0, RADIUS)\<close> for azimuth \<open>0\<close> (south) and \<open>(- RADIUS, 0, 0)\<close> for azimuth
  \<open>\<pi>/2\<close> (west).
\<close>

theorem getSunPosition_boundary:
  "(pos_altitude (gp d la lo) = pi / 2 \<longrightarrow>
      sun_x (getSunPosition gp d la lo) = 0 \<and>
      sun_y (getSunPosition gp d la lo) = RADIUS \<and>
      sun_z (getSunPosition gp d la lo) = 0) \<and>
   (pos_altitude (gp d la lo) = 0 \<and> pos_azimuth (gp d la lo) = 0 \<longrightarrow>
      sun_x (getSunPosition gp d la lo) = 0 \<and>
      sun_y (getSunPosition gp d la lo) = 0 \<and>
      sun_z (getSunPosition gp d la lo) = RADIUS) \<and>
   (pos_altitude (gp d la lo) = 0 \<and> pos_azimuth (gp d la lo) = pi / 2 \<longrightarrow>
      sun_x (getSunPosition gp d la lo) = - RADIUS \<and>
      sun_y (getSunPosition gp d la lo) = 0 \<and>
      sun_z (getSunPosition gp d la lo) = 0)"
  by (intro conjI impI; (elim conjE)?; simp only: getSunPosition_sel; simp)

text \<open>
  The three cases of C7 at position functions that answer exactly those angles: the
  zenith with azimuth \<open>1\<close>, south on the horizon, west on the horizon.
\<close>

theorem getSunPosition_boundary_witness:
  "sun_x (getSunPosition (fixedPosition (pi / 2) 1) (0::nat) 0 0) = 0 \<and>
   sun_y (getSunPosition (fixedPosition (pi / 2) 1) (0::nat) 0 0) = 50 \<and>
   sun_z (getSunPosition (fixedPosition (pi / 2) 1) (0::nat) 0 0) = 0 \<and>
   sun_x (getSunPosition (fixedPosition 0 0) (0::nat) 0 0) = 0 \<and>
   sun_y (getSunPosition (fixedPosition 0 0) (0::nat) 0 0) = 0 \<and>
   sun_z (getSunPosition (fixedPosition 0 0) (0::nat) 0 0) = 50 \<and>
   sun_x (getSunPosition (fixedPosition 0 (pi / 2)) (0::nat) 0 0) = - 50 \<and>
   sun_y (getSunPosition (fixedPosition 0 (pi / 2)) (0::nat) 0 0) = 0 \<and>
   sun_z (getSunPosition (fixedPosition 0 (pi / 2)) (0::nat) 0 0) = 0"
  using getSunPosition_boundary [of "fixedPosition (pi / 2) 1" "0::nat" 0 0]
        getSunPosition_boundary [of "fixedPosition 0 0" "0::nat" 0 0]
        getSunPosition_boundary [of "fixedPosition 0 (pi / 2)" "0::nat" 0 0]
  by (simp add: fixedPosition_def RADIUS_def)

text \<open>
  C6, as the spec states it, asks for a point of the upper hemisphere (\<open>y \<ge> 0\<close>) at
  every altitude between \<open>-\<pi>/2\<close> and \<open>\<pi>/2\<close>. It fails below the horizon: at
  altitude \<open>-\<pi>/6\<close>, which is in that range, \<open>y = sin (-\<pi>/6) * 50 = - 25\<close>.
\<close>

theorem getSunPosition_below_horizon_counterexample:
  "- (pi / 2) < altitude (getSunPosition (fixedPosition (- (pi / 6)) 0) (0::nat) 0 0) \<and>
   altitude (getSunPosition (fixedPosition (- (pi / 6)) 0) (0::nat) 0 0) \<le> pi / 2 \<and>
   sun_y (getSunPosition (fixedPosition (- (pi / 6)) 0) (0::nat) 0 0) = - 25 \<and>
   \<not> 0 \<le> sun_y (getSunPosition (fixedPosition (- (pi / 6)) 0) (0::nat) 0 0)"
proof -
  have "- (pi / 2) < - (pi / 6)" and "- (pi / 6) \<le> pi / 2"
    using pi_gt_zero by linarith+
  then show ?thesis
    by (simp only: getSunPosition_sel fixedPosition_def RADIUS_def sin_minus sin_30
          suncalc_position.simps) simp
qed

text \<open>
  C6, amended. For every altitude and azimuth the vector is a point of the sphere of
  radius \<open>RADIUS\<close> around the origin, \<open>x\<^sup>2 + y\<^sup>2 + z\<^sup>2 = RADIUS\<^sup>2\<close>; and for an altitude
  between \<open>-\<pi>/2\<close> (excluded) and \<open>\<pi>/2\<close> (included), \<open>y \<ge> 0\<close> holds exactly when the
  altitude is not negative, that is when the sun is on or above the horizon.
\<close>

theorem getSunPosition_on_sphere:
  "(sun_x (getSunPosition gp d la lo))\<^sup>2 + (sun_y (getSunPosition gp d la lo))\<^sup>2 +
     (sun_z (getSunPosition gp d la lo))\<^sup>2 = RADIUS\<^sup>2 \<and>
   (- (pi / 2) < altitude (getSunPosition gp d la lo) \<and>
    altitude (getSunPosition gp d la lo) \<le> pi / 2 \<longrightarrow>
      (0 \<le> sun_y (getSunPosition gp d la lo) \<longleftrightarrow>
       0 \<le> altitude (getSunPosition gp d la lo)))"
proof (intro conjI impI)
  show "(sun_x (getSunPosition gp d la lo))\<^sup>2 + (sun_y (getSunPosition gp d la lo))\<^sup>2 +
     (sun_z (getSunPosition gp d la lo))\<^sup>2 = RADIUS\<^sup>2"
    unfolding getSunPosition_sel sphere_algebra by simp
next
  assume "- (pi / 2) < altitude (getSunPosition gp d la lo) \<and>
    altitude (getSunPosition gp d la lo) \<le> pi / 2"
  then have "0 \<le> sin (pos_altitude (gp d la lo)) \<longleftrightarrow> 0 \<le> pos_altitude (gp d la lo)"
    by (intro sin_sign) (simp_all add: getSunPosition_sel)
  then show "0 \<le> sun_y (getSunPosition gp d la lo) \<longleftrightarrow>
       0 \<le> altitude (getSunPosition gp d la lo)"
    by (simp add: getSunPosition_sel RADIUS_def zero_le_mult_iff)
qed

text \<open>
  The amended C6 at altitude \<open>\<pi>/2\<close> and azimuth \<open>1\<close>: the altitude is in the range and
  not negative, so \<open>y \<ge> 0\<close>, and the point is at distance \<open>50\<close> from the origin.
\<close>

theorem getSunPosition_on_sphere_witness:
  "- (pi / 2) < altitude (getSunPosition (fixedPosition (pi / 2) 1) (0::nat) 0 0) \<and>
   altitude (getSunPosition (fixedPosition (pi / 2) 1) (0::nat) 0 0) \<le> pi / 2 \<and>
   0 \<le> sun_y (getSunPosition (fixedPosition (pi / 2) 1) (0::nat) 0 0) \<and>
   (sun_x (getSunPosition (fixedPosition (pi / 2) 1) (0::nat) 0 0))\<^sup>2 +
   (sun_y (getSunPosition (fixedPosition (pi / 2) 1) (0::nat) 0 0))\<^sup>2 +
   (sun_z (getSunPosition (fixedPosition (pi / 2) 1) (0::nat) 0 0))\<^sup>2 = 50\<^sup>2"
proof -
  have range: "- (pi / 2) < pi / 2" and pos: "0 \<le> pi / 2"
    using pi_gt_zero by linarith+
  then show ?thesis
    using getSunPosition_on_sphere [of "fixedPosition (pi / 2) 1" "0::nat" 0 0]
    by (simp add: getSunPosition_sel(4) fixedPosition_def RADIUS_def)
qed

text \<open>
  C5, as the spec states it, asks that distinct pairs of angles give distinct vectors
  whenever the altitudes are between \<open>-\<pi>/2\<close> and \<open>\<pi>/2\<close>. It fails in the double
  arithmetic of the code: at the altitude \<open>nearZenith\<close>, the azimuths \<open>0\<close> and
  \<^verbatim>\<open>5e-324\<close>, both doubles, give the same three coordinates, since the product for \<open>x\<close>
  underflows to zero and the cosine of the azimuth rounds to \<open>1\<close>. It fails in exact
  arithmetic too, for other pairs: at the zenith (altitude \<open>\<pi>/2\<close>, which the range
  includes) the azimuths \<open>0\<close> and \<open>1\<close> give the same vector, and on the horizon the
  azimuths \<open>0\<close> and \<open>2\<pi>\<close> do, as any two azimuths a full turn apart.
\<close>

theorem getSunPosition_not_injective_counterexample:
  "sun_x (getSunPosition_double (fixedPosition nearZenith 0) (0::nat) 0 0) =
     sun_x (getSunPosition_double (fixedPosition nearZenith minSubnormal) (0::nat) 0 0) \<and>
   sun_y (getSunPosition_double (fixedPosition nearZenith 0) (0::nat) 0 0) =
     sun_y (getSunPosition_double (fixedPosition nearZenith minSubnormal) (0::nat) 0 0) \<and>
   sun_z (getSunPosition_double (fixedPosition nearZenith 0) (0::nat) 0 0) =
     sun_z (getSunPosition_double (fixedPosition nearZenith minSubnormal) (0::nat) 0 0) \<and>
   altitude (getSunPosition_double (fixedPosition nearZenith 0) (0::nat) 0 0) = nearZenith \<and>
   altitude (getSunPosition_double (fixedPosition nearZenith minSubnormal) (0::nat) 0 0) =
     nearZenith \<and>
   azimuth (getSunPosition_double (fixedPosition nearZenith 0) (0::nat) 0 0) = 0 \<and>
   azimuth (getSunPosition_double (fixedPosition nearZenith minSubnormal) (0::nat) 0 0) =
     minSubnormal \<and>
   - (pi / 2) < nearZenith \<and> nearZenith \<le> pi / 2 \<and>
   (0::real) \<noteq> minSubnormal \<and>
   fl nearZenith = nearZenith \<and> fl minSubnormal = minSubnormal \<and>
   sun_x (getSunPosition (fixedPosition (pi / 2) 0) (0::nat) 0 0) =
     sun_x (getSunPosition (fixedPosition (pi / 2) 1) (0::nat) 0 0) \<and>
   sun_y (getSunPosition (fixedPosition (pi / 2) 0) (0::nat) 0 0) =
     sun_y (getSunPosition (fixedPosition (pi / 2) 1) (0::nat) 0 0) \<and>
   sun_z (getSunPosition (fixedPosition (pi / 2) 0) (0::nat) 0 0) =
     sun_z (getSunPosition (fixedPosition (pi / 2) 1) (0::nat) 0 0) \<and>
   altitude (getSunPosition (fixedPosition (pi / 2) 0) (0::nat) 0 0) = pi / 2 \<and>
   altitude (getSunPosition (fixedPosition (pi / 2) 1) (0::nat) 0 0) = pi / 2 \<and>
   azimuth (getSunPosition (fixedPosition (pi / 2) 0) (0::nat) 0 0) \<noteq>
     azimuth (getSunPosition (fixedPosition (pi / 2) 1) (0::nat) 0 0) \<and>
   sun_x (getSunPosition (fixedPosition 0 0) (0::nat) 0 0) =
     sun_x (getSunPosition (fixedPosition 0 (2 * pi)) (0::nat) 0 0) \<and>
   sun_y (getSunPosition (fixedPosition 0 0) (0::nat) 0 0) =
     sun_y (getSunPosition (fixedPosition 0 (2 * pi)) (0::nat) 0 0) \<and>
   sun_z (getSunPosition (fixedPosition 0 0) (0::nat) 0 0) =
     sun_z (getSunPosition (fixedPosition 0 (2 * pi)) (0::nat) 0 0) \<and>
   altitude (getSunPosition (fixedPosition 0 0) (0::nat) 0 0) = 0 \<and>
   altitude (getSunPosition (fixedPosition 0 (2 * pi)) (0::nat) 0 0) = 0 \<and>
   azimuth (getSunPosition (fixedPosition 0 0) (0::nat) 0 0) \<noteq>
     azimuth (getSunPosition (fixedPosition 0 (2 * pi)) (0::nat) 0 0)"
proof -
  have "Math_cos 0 = 1" by (simp add: Math_cos_def fl_one)
  then have z: "fl (fl (Math_cos nearZenith * RADIUS) * Math_cos 0) =
      fl (fl (Math_cos nearZenith * RADIUS) * Math_cos minSubnormal)"
    by (simp only: Math_cos_minSubnormal)
  have "- (pi / 2) < nearZenith" and "nearZenith \<le> pi / 2"
    using nearZenith_range pi_gt_zero by linarith+
  moreover have "(0::real) \<noteq> minSubnormal" using minSubnormal_small by simp
  ultimately have double:
    "sun_x (getSunPosition_double (fixedPosition nearZenith 0) (0::nat) 0 0) =
       sun_x (getSunPosition_double (fixedPosition nearZenith minSubnormal) (0::nat) 0 0) \<and>
     sun_y (getSunPosition_double (fixedPosition nearZenith 0) (0::nat) 0 0) =
       sun_y (getSunPosition_double (fixedPosition nearZenith minSubnormal) (0::nat) 0 0) \<and>
     sun_z (getSunPosition_double (fixedPosition nearZenith 0) (0::nat) 0 0) =
       sun_z (getSunPosition_double (fixedPosition nearZenith minSubnormal) (0::nat) 0 0) \<and>
     altitude (getSunPosition_double (fixedPosition nearZenith 0) (0::nat) 0 0) = nearZenith \<and>
     altitude (getSunPosition_double (fixedPosition nearZenith minSubnormal) (0::nat) 0 0) =
       nearZenith \<and>
     azimuth (getSunPosition_double (fixedPosition nearZenith 0) (0::nat) 0 0) = 0 \<and>
     azimuth (getSunPosition_double (fixedPosition nearZenith minSubnormal) (0::nat) 0 0) =
       minSubnormal \<and>
     - (pi / 2) < nearZenith \<and> nearZenith \<le> pi / 2 \<and>
     (0::real) \<noteq> minSubnormal \<and>
     fl nearZenith = nearZenith \<and> fl minSubnormal = minSubnormal"
    unfolding getSunPosition_double_sel
    using z double_x_zero double_x_underflow fl_nearZenith fl_minSubnormal by simp
  have exact:
    "sun_x (getSunPosition (fixedPosition (pi / 2) 0) (0::nat) 0 0) =
       sun_x (getSunPosition (fixedPosition (pi / 2) 1) (0::nat) 0 0) \<and>
     sun_y (getSunPosition (fixedPosition (pi / 2) 0) (0::nat) 0 0) =
       sun_y (getSunPosition (fixedPosition (pi / 2) 1) (0::nat) 0 0) \<and>
     sun_z (getSunPosition (fixedPosition (pi / 2) 0) (0::nat) 0 0) =
       sun_z (getSunPosition (fixedPosition (pi / 2) 1) (0::nat) 0 0) \<and>
     altitude (getSunPosition (fixedPosition (pi / 2) 0) (0::nat) 0 0) = pi / 2 \<and>
     altitude (getSunPosition (fixedPosition (pi / 2) 1) (0::nat) 0 0) = pi / 2 \<and>
     azimuth (getSunPosition (fixedPosition (pi / 2) 0) (0::nat) 0 0) \<noteq>
       azimuth (getSunPosition (fixedPosition (pi / 2) 1) (0::nat) 0 0) \<and>
     sun_x (getSunPosition (fixedPosition 0 0) (0::nat) 0 0) =
       sun_x (getSunPosition (fixedPosition 0 (2 * pi)) (0::nat) 0 0) \<and>
     sun_y (getSunPosition (fixedPosition 0 0) (0::nat) 0 0) =
       sun_y (getSunPosition (fixedPosition 0 (2 * pi)) (0::nat) 0 0) \<and>
     sun_z (getSunPosition (fixedPosition 0 0) (0::nat) 0 0) =
       sun_z (getSunPosition (fixedPosition 0 (2 * pi)) (0::nat) 0 0) \<and>
     altitude (getSunPosition (fixedPosition 0 0) (0::nat) 0 0) = 0 \<and>
     altitude (getSunPosition (fixedPosition 0 (2 * pi)) (0::nat) 0 0) = 0 \<and>
     azimuth (getSunPosition (fixedPosition 0 0) (0::nat) 0 0) \<noteq>
       azimuth (getSunPosition (fixedPosition 0 (2 * pi)) (0::nat) 0 0)"
    unfolding getSunPosition_fixed using pi_gt_zero by simp
  from double exact show ?thesis by (simp only: simp_thms)
qed

text \<open>
  C5, amended. In exact real arithmetic, for altitudes strictly between \<open>-\<pi>/2\<close> and
  \<open>\<pi>/2\<close> (the zenith left out) and azimuths within one turn, \<open>-\<pi> < azimuth \<le> \<pi>\<close>,
  distinct pairs of angles give distinct vectors. Nothing is said of the rounded
  vectors, which can coincide.
\<close>

theorem getSunPosition_injective:
  assumes alt1: "- (pi / 2) < altitude (getSunPosition gp d la lo)"
                "altitude (getSunPosition gp d la lo) < pi / 2"
    and alt2: "- (pi / 2) < altitude (getSunPosition gp' d' la' lo')"
              "altitude (getSunPosition gp' d' la' lo') < pi / 2"
    and az1: "- pi < azimuth (getSunPosition gp d la lo)"
             "azimuth (getSunPosition gp d la lo) \<le> pi"
    and az2: "- pi < azimuth (getSunPosition gp' d' la' lo')"
             "azimuth (getSunPosition gp' d' la' lo') \<le> pi"
    and distinct:
      "(altitude (getSunPosition gp d la lo), azimuth (getSunPosition gp d la lo)) \<noteq>
       (altitude (getSunPosition gp' d' la' lo'), azimuth (getSunPosition gp' d' la' lo'))"
  shows "(sun_x (getSunPosition gp d la lo), sun_y (getSunPosition gp d la lo),
          sun_z (getSunPosition gp d la lo)) \<noteq>
         (sun_x (getSunPosition gp' d' la' lo'), sun_y (getSunPosition gp' d' la' lo'),
          sun_z (getSunPosition gp' d' la' lo'))"
proof
  assume "(sun_x (getSunPosition gp d la lo), sun_y (getSunPosition gp d la lo),
          sun_z (getSunPosition gp d la lo)) =
         (sun_x (getSunPosition gp' d' la' lo'), sun_y (getSunPosition gp' d' la' lo'),
          sun_z (getSunPosition gp' d' la' lo'))"
  then have "pos_altitude (gp d la lo) = pos_altitude (gp' d' la' lo') \<and>
             pos_azimuth (gp d la lo) = pos_azimuth (gp' d' la' lo')"
    using alt1 alt2 az1 az2
    by (intro vector_determines_angles) (simp_all add: getSunPosition_sel)
  with distinct show False
    by (simp add: getSunPosition_sel)
qed

text \<open>
  The amended C5 on the horizon, for the azimuths \<open>0\<close> (south) and \<open>\<pi>\<close> (north): both
  pairs are in the range, they differ, and so do the vectors.
\<close>

theorem getSunPosition_injective_witness:
  "- (pi / 2) < altitude (getSunPosition (fixedPosition 0 0) (0::nat) 0 0) \<and>
   altitude (getSunPosition (fixedPosition 0 0) (0::nat) 0 0) < pi / 2 \<and>
   - pi < azimuth (getSunPosition (fixedPosition 0 0) (0::nat) 0 0) \<and>
   azimuth (getSunPosition (fixedPosition 0 0) (0::nat) 0 0) \<le> pi \<and>
   - (pi / 2) < altitude (getSunPosition (fixedPosition 0 pi) (0::nat) 0 0) \<and>
   altitude (getSunPosition (fixedPosition 0 pi) (0::nat) 0 0) < pi / 2 \<and>
   - pi < azimuth (getSunPosition (fixedPosition 0 pi) (0::nat) 0 0) \<and>
   azimuth (getSunPosition (fixedPosition 0 pi) (0::nat) 0 0) \<le> pi \<and>
   (altitude (getSunPosition (fixedPosition 0 0) (0::nat) 0 0),
    azimuth (getSunPosition (fixedPosition 0 0) (0::nat) 0 0)) \<noteq>
   (altitude (getSunPosition (fixedPosition 0 pi) (0::nat) 0 0),
    azimuth (getSunPosition (fixedPosition 0 pi) (0::nat) 0 0)) \<and>
   (sun_x (getSunPosition (fixedPosition 0 0) (0::nat) 0 0),
    sun_y (getSunPosition (fixedPosition 0 0) (0::nat) 0 0),
    sun_z (getSunPosition (fixedPosition 0 0) (0::nat) 0 0)) \<noteq>
   (sun_x (getSunPosition (fixedPosition 0 pi) (0::nat) 0 0),
    sun_y (getSunPosition (fixedPosition 0 pi) (0::nat) 0 0),
    sun_z (getSunPosition (fixedPosition 0 pi) (0::nat) 0 0))"
proof -
  have r: "- (pi / 2) < 0" "0 < pi / 2" "- pi < 0" "0 \<le> pi" "- pi < pi" "0 \<noteq> pi"
    using pi_gt_zero by simp_all
  have ranges:
    "- (pi / 2) < altitude (getSunPosition (fixedPosition 0 0) (0::nat) 0 0)"
    "altitude (getSunPosition (fixedPosition 0 0) (0::nat) 0 0) < pi / 2"
    "- (pi / 2) < altitude (getSunPosition (fixedPosition 0 pi) (0::nat) 0 0)"
    "altitude (getSunPosition (fixedPosition 0 pi) (0::nat) 0 0) < pi / 2"
    "- pi < azimuth (getSunPosition (fixedPosition 0 0) (0::nat) 0 0)"
    "azimuth (getSunPosition (fixedPosition 0 0) (0::nat) 0 0) \<le> pi"
    "- pi < azimuth (getSunPosition (fixedPosition 0 pi) (0::nat) 0 0)"
    "azimuth (getSunPosition (fixedPosition 0 pi) (0::nat) 0 0) \<le> pi"
    unfolding getSunPosition_fixed(1,2) using r by simp_all
  have differ:
    "(altitude (getSunPosition (fixedPosition 0 0) (0::nat) 0 0),
      azimuth (getSunPosition (fixedPosition 0 0) (0::nat) 0 0)) \<noteq>
     (altitude (getSunPosition (fixedPosition 0 pi) (0::nat) 0 0),
      azimuth (getSunPosition (fixedPosition 0 pi) (0::nat) 0 0))"
    unfolding getSunPosition_fixed(1,2) using r by simp
  from ranges differ show ?thesis
    using getSunPosition_injective [OF ranges differ] by blast
qed

section \<open>The claims about the lighting\<close>

text \<open>
  C2. The two-branch policy. Whatever a mounted scene held, the effect leaves
  \<open>deriveIllumination\<close> of the sun's altitude in it. For an altitude \<open>\<le> 0\<close> that is:
  directional intensity \<open>0\<close>, ambient intensity \<open>0.05\<close>, the night tint \<^verbatim>\<open>0x111133\<close> (red
  and green \<open>17\<close>, blue \<open>51\<close>: a dark blue, and not the day tint), marker hidden. For an
  altitude \<open>> 0\<close>: directional intensity \<open>max 0.5 (sin altitude * 3.0)\<close>, ambient
  intensity \<open>0.4 + sin altitude * 0.4\<close>, the day tint \<^verbatim>\<open>0xffffff\<close> (white) over the
  ground tint \<^verbatim>\<open>0x444444\<close> (a mid grey, \<open>68\<close> on each channel), marker shown.
\<close>

theorem deriveIllumination_policy:
  "(mounted ref \<longrightarrow>
      illuminationAfterUpdate ref sunPos = Some (deriveIllumination (altitude sunPos))) \<and>
   (alt \<le> 0 \<longrightarrow>
      directionalIntensity (deriveIllumination alt) = 0 \<and>
      ambientIntensity (deriveIllumination alt) = 0.05 \<and>
      ambientColor (deriveIllumination alt) = 0x111133 \<and>
      ambientColor (deriveIllumination alt) \<noteq> 0xffffff \<and>
      sunMarkerVisible (deriveIllumination alt) = False) \<and>
   (0 < alt \<longrightarrow>
      directionalIntensity (deriveIllumination alt) = max 0.5 (sin alt * 3.0) \<and>
      ambientIntensity (deriveIllumination alt) = 0.4 + sin alt * 0.4 \<and>
      ambientColor (deriveIllumination alt) = 0xffffff \<and>
      ambientGroundColor (deriveIllumination alt) = 0x444444 \<and>
      sunMarkerVisible (deriveIllumination alt) = True) \<and>
   (0x111133 :: nat) = 17 * 65536 + 17 * 256 + 51 \<and>
   (0xffffff :: nat) = 255 * 65536 + 255 * 256 + 255 \<and>
   (0x444444 :: nat) = 68 * 65536 + 68 * 256 + 68"
  by (simp add: illuminationAfterUpdate_eq deriveIllumination_night deriveIllumination_day)

text \<open>
  C2 on the horizon (altitude \<open>0\<close>, still the night branch) and at the zenith, where the
  day branch gives the intensities \<open>3\<close> and \<open>0.8\<close>; and the effect run on the scene as
  mounted, with the sun at the zenith.
\<close>

theorem deriveIllumination_policy_witness:
  "directionalIntensity (deriveIllumination 0) = 0 \<and>
   ambientIntensity (deriveIllumination 0) = 0.05 \<and>
   ambientColor (deriveIllumination 0) = 0x111133 \<and>
   sunMarkerVisible (deriveIllumination 0) = False \<and>
   0 < pi / 2 \<and>
   directionalIntensity (deriveIllumination (pi / 2)) = 3 \<and>
   ambientIntensity (deriveIllumination (pi / 2)) = 0.8 \<and>
   ambientColor (deriveIllumination (pi / 2)) = 0xffffff \<and>
   ambientGroundColor (deriveIllumination (pi / 2)) = 0x444444 \<and>
   sunMarkerVisible (deriveIllumination (pi / 2)) = True \<and>
   mounted mountedScene \<and>
   illuminationAfterUpdate mountedScene (getSunPosition (fixedPosition (pi / 2) 0) (0::nat) 0 0) =
     Some (deriveIllumination (pi / 2))"
proof -
  have p: "0 < pi / 2" using pi_gt_zero by simp
  have s: "sin (pi / 2) = (1::real)" by simp
  have night:
    "directionalIntensity (deriveIllumination 0) = 0 \<and>
     ambientIntensity (deriveIllumination 0) = 0.05 \<and>
     ambientColor (deriveIllumination 0) = 0x111133 \<and>
     sunMarkerVisible (deriveIllumination 0) = False"
    using deriveIllumination_policy
            [of mountedScene "getSunPosition (fixedPosition (pi / 2) 0) (0::nat) 0 0" 0]
    by simp
  from deriveIllumination_policy
         [of mountedScene "getSunPosition (fixedPosition (pi / 2) 0) (0::nat) 0 0" "pi / 2"] p
  have "directionalIntensity (deriveIllumination (pi / 2)) = max 0.5 (sin (pi / 2) * 3.0) \<and>
      ambientIntensity (deriveIllumination (pi / 2)) = 0.4 + sin (pi / 2) * 0.4 \<and>
      ambientColor (deriveIllumination (pi / 2)) = 0xffffff \<and>
      ambientGroundColor (deriveIllumination (pi / 2)) = 0x444444 \<and>
      sunMarkerVisible (deriveIllumination (pi / 2)) = True"
    by blast
  then have day:
    "directionalIntensity (deriveIllumination (pi / 2)) = 3 \<and>
     ambientIntensity (deriveIllumination (pi / 2)) = 0.8 \<and>
     ambientColor (deriveIllumination (pi / 2)) = 0xffffff \<and>
     ambientGroundColor (deriveIllumination (pi / 2)) = 0x444444 \<and>
     sunMarkerVisible (deriveIllumination (pi / 2)) = True"
    unfolding s by simp
  from deriveIllumination_policy
         [of mountedScene "getSunPosition (fixedPosition (pi / 2) 0) (0::nat) 0 0" 0]
       mounted_mountedScene
  have effect:
    "illuminationAfterUpdate mountedScene (getSunPosition (fixedPosition (pi / 2) 0) (0::nat) 0 0) =
       Some (deriveIllumination (pi / 2))"
    unfolding getSunPosition_fixed by blast
  from night day p mounted_mountedScene effect show ?thesis
    by blast
qed




text \<open>
  C4. The jump at the horizon. At every altitude \<open>\<le> 0\<close> the directional intensity is
  \<open>0\<close>. There is an \<open>\<epsilon> > 0\<close>, and \<open>1/6\<close> is one, such that at every altitude between \<open>0\<close>
  and \<open>\<epsilon>\<close> the directional intensity is exactly \<open>0.5\<close> and the marker is shown. The
  ambient intensity tends to \<open>0.4\<close> as the altitude decreases to \<open>0\<close>. And at every
  altitude \<open>> 0\<close> the directional intensity is at least \<open>0.5\<close>.
\<close>

theorem deriveIllumination_horizon_jump:
  "(alt \<le> 0 \<longrightarrow> directionalIntensity (deriveIllumination alt) = 0) \<and>
   (\<exists>e>0. \<forall>a. 0 < a \<and> a < e \<longrightarrow>
      directionalIntensity (deriveIllumination a) = 0.5 \<and>
      sunMarkerVisible (deriveIllumination a)) \<and>
   (0 < alt \<and> alt < 1 / 6 \<longrightarrow>
      directionalIntensity (deriveIllumination alt) = 0.5 \<and>
      sunMarkerVisible (deriveIllumination alt)) \<and>
   ((\<lambda>a. ambientIntensity (deriveIllumination a)) \<longlongrightarrow> 0.4) (at_right 0) \<and>
   (0 < alt \<longrightarrow> 0.5 \<le> directionalIntensity (deriveIllumination alt))"
proof -
  have floor: "directionalIntensity (deriveIllumination a) = 0.5 \<and>
      sunMarkerVisible (deriveIllumination a)"
    if "0 < a \<and> a < 1 / 6" for a
  proof -
    have "sin a \<le> a" using that by (intro sin_x_le_x) simp
    then have "sin a * 3 \<le> 1 / 2" using that by linarith
    then show ?thesis using that by (simp add: deriveIllumination_day)
  qed
  have lim: "((\<lambda>a. ambientIntensity (deriveIllumination a)) \<longlongrightarrow> 0.4) (at_right 0)"
  proof -
    have "((\<lambda>a::real. 0.4 + sin a * 0.4) \<longlongrightarrow> 0.4 + sin 0 * 0.4) (at_right 0)"
      by (intro tendsto_intros)
    then have "((\<lambda>a::real. 0.4 + sin a * 0.4) \<longlongrightarrow> 0.4) (at_right 0)"
      by simp
    moreover have "\<forall>\<^sub>F a in at_right 0.
        0.4 + sin a * 0.4 = ambientIntensity (deriveIllumination a)"
      using eventually_at_right_less [of "0::real"]
      by eventually_elim (simp add: deriveIllumination_day)
    ultimately show ?thesis
      by (rule Lim_transform_eventually)
  qed
  show ?thesis
  proof (intro conjI impI)
    show "\<exists>e>0. \<forall>a. 0 < a \<and> a < e \<longrightarrow>
        directionalIntensity (deriveIllumination a) = 0.5 \<and>
        sunMarkerVisible (deriveIllumination a)"
      using floor by (intro exI [of _ "1 / 6"]) simp
    show "((\<lambda>a. ambientIntensity (deriveIllumination a)) \<longlongrightarrow> 0.4) (at_right 0)"
      by (rule lim)
  qed (simp_all add: floor directionalIntensity_night directionalIntensity_day)
qed

text \<open>
  C4 at the altitudes \<open>- 1\<close> (night), \<open>1/10\<close> (just above the horizon, below \<open>1/6\<close>) and
  \<open>1\<close> (day).
\<close>

theorem deriveIllumination_horizon_jump_witness:
  "directionalIntensity (deriveIllumination (- 1)) = 0 \<and>
   directionalIntensity (deriveIllumination (1 / 10)) = 0.5 \<and>
   sunMarkerVisible (deriveIllumination (1 / 10)) \<and>
   0.5 \<le> directionalIntensity (deriveIllumination 1)"
  using deriveIllumination_horizon_jump [of "- 1"]
        deriveIllumination_horizon_jump [of "1 / 10"]
        deriveIllumination_horizon_jump [of 1]
  by simp

text \<open>
  C9. At every altitude the marker is shown exactly when the directional intensity is
  positive, and both hold exactly when the altitude is positive. At every altitude, which
  for a solar altitude means between \<open>-\<pi>/2\<close> (excluded) and \<open>\<pi>/2\<close> (included), the
  ambient intensity is at least \<open>0.05\<close>: the scene is never unlit.
\<close>

theorem illumination_consistent:
  "(sunMarkerVisible (deriveIllumination alt) \<longleftrightarrow>
      0 < directionalIntensity (deriveIllumination alt)) \<and>
   (0 < directionalIntensity (deriveIllumination alt) \<longleftrightarrow> 0 < alt) \<and>
   (- (pi / 2) < alt \<and> alt \<le> pi / 2 \<longrightarrow>
      0.05 \<le> ambientIntensity (deriveIllumination alt))"
proof (cases "alt \<le> 0")
  case True
  then show ?thesis by (simp add: deriveIllumination_night)
next
  case False
  then have pos: "0 < alt" by simp
  have "0 \<le> sin alt" if "alt \<le> pi / 2"
    using pos that pi_gt_zero by (intro sin_ge_zero) linarith+
  then show ?thesis using pos by (auto simp add: deriveIllumination_day)
qed

text \<open>
  C9 at the zenith and on the horizon, both in the range: by day the marker is shown,
  the directional intensity is positive and the ambient intensity is above the floor; on
  the horizon the marker is hidden and the ambient intensity is the floor itself.
\<close>

theorem illumination_consistent_witness:
  "- (pi / 2) < pi / 2 \<and> pi / 2 \<le> pi / 2 \<and> 0 < pi / 2 \<and>
   sunMarkerVisible (deriveIllumination (pi / 2)) \<and>
   0 < directionalIntensity (deriveIllumination (pi / 2)) \<and>
   0.05 \<le> ambientIntensity (deriveIllumination (pi / 2)) \<and>
   - (pi / 2) < 0 \<and> 0 \<le> pi / 2 \<and>
   \<not> sunMarkerVisible (deriveIllumination 0) \<and>
   \<not> 0 < directionalIntensity (deriveIllumination 0) \<and>
   0.05 \<le> ambientIntensity (deriveIllumination 0)"
proof -
  have r: "- (pi / 2) < pi / 2" "0 < pi / 2" "- (pi / 2) < 0" "0 \<le> pi / 2"
    using pi_gt_zero by simp_all
  from illumination_consistent [of "pi / 2"] r
  have day: "sunMarkerVisible (deriveIllumination (pi / 2)) \<and>
      0 < directionalIntensity (deriveIllumination (pi / 2)) \<and>
      0.05 \<le> ambientIntensity (deriveIllumination (pi / 2))"
    by simp
  from illumination_consistent [of 0] r
  have night: "\<not> sunMarkerVisible (deriveIllumination 0) \<and>
      \<not> 0 < directionalIntensity (deriveIllumination 0) \<and>
      0.05 \<le> ambientIntensity (deriveIllumination 0)"
    by simp
  from r day night show ?thesis by simp
qed

text \<open>
  C8. Both operations are deterministic and carry no state. The object that
  \<^verbatim>\<open>getSunPosition\<close> returns depends on the date, the place and the position function
  through the two angles answered only, so two calls answered alike return the same
  object. The illumination that the effect leaves in a mounted scene depends on the
  sun's altitude only: neither on what the scene held before nor on the rest of the sun
  position. And running the effect a second time with the same sun position leaves the
  scene as the first run left it.
\<close>

theorem deterministic_stateless:
  "(gp d la lo = gp' d' la' lo' \<longrightarrow>
      getSunPosition gp d la lo = getSunPosition gp' d' la' lo') \<and>
   (mounted ref \<and> mounted ref' \<and> altitude sunPos = altitude sunPos' \<longrightarrow>
      illuminationAfterUpdate ref sunPos = illuminationAfterUpdate ref' sunPos') \<and>
   (illuminationUpdate ref sunPos = Inr scene \<longrightarrow> illuminationUpdate scene sunPos = Inr scene)"
  by (simp add: illuminationAfterUpdate_eq illuminationUpdate_idem getSunPosition_def)

text \<open>
  C8 at concrete inputs: the same angles answered for two dates; the sun at the zenith
  seen from the scene as mounted and from the night scene, under two azimuths; and the
  night update run on the scene it has produced.
\<close>

theorem deterministic_stateless_witness:
  "fixedPosition 0 0 (0::nat) 0 0 = fixedPosition 0 0 (1::nat) 0 0 \<and>
   getSunPosition (fixedPosition 0 0) (0::nat) 0 0 =
     getSunPosition (fixedPosition 0 0) (1::nat) 0 0 \<and>
   mounted mountedScene \<and> mounted nightScene \<and>
   altitude (getSunPosition (fixedPosition (pi / 2) 0) (0::nat) 0 0) =
     altitude (getSunPosition (fixedPosition (pi / 2) 1) (0::nat) 0 0) \<and>
   illuminationAfterUpdate mountedScene (getSunPosition (fixedPosition (pi / 2) 0) (0::nat) 0 0) =
     illuminationAfterUpdate nightScene (getSunPosition (fixedPosition (pi / 2) 1) (0::nat) 0 0) \<and>
   illuminationUpdate mountedScene (getSunPosition (fixedPosition 0 0) (0::nat) 0 0) =
     Inr nightScene \<and>
   illuminationUpdate nightScene (getSunPosition (fixedPosition 0 0) (0::nat) 0 0) =
     Inr nightScene"
proof -
  have same: "fixedPosition 0 0 (0::nat) 0 0 = fixedPosition 0 0 (1::nat) 0 0"
    by (simp add: fixedPosition_def)
  have alt: "altitude (getSunPosition (fixedPosition (pi / 2) 0) (0::nat) 0 0) =
      altitude (getSunPosition (fixedPosition (pi / 2) 1) (0::nat) 0 0)"
    by (simp only: getSunPosition_fixed)
  note run = illuminationUpdate_mountedScene_night
  from deterministic_stateless
         [of "fixedPosition 0 0" "0::nat" 0 0 "fixedPosition 0 0" "1::nat" 0 0
             mountedScene nightScene
             "getSunPosition (fixedPosition (pi / 2) 0) (0::nat) 0 0"
             "getSunPosition (fixedPosition (pi / 2) 1) (0::nat) 0 0"]
       same mounted_mountedScene mounted_nightScene alt
  have one: "getSunPosition (fixedPosition 0 0) (0::nat) 0 0 =
      getSunPosition (fixedPosition 0 0) (1::nat) 0 0"
    and two: "illuminationAfterUpdate mountedScene
        (getSunPosition (fixedPosition (pi / 2) 0) (0::nat) 0 0) =
      illuminationAfterUpdate nightScene
        (getSunPosition (fixedPosition (pi / 2) 1) (0::nat) 0 0)"
    by blast+
  have three: "illuminationUpdate nightScene (getSunPosition (fixedPosition 0 0) (0::nat) 0 0) =
      Inr nightScene"
    by (rule deterministic_stateless
          [where ref = mountedScene and scene = nightScene
             and sunPos = "getSunPosition (fixedPosition 0 0) (0::nat) 0 0",
           THEN conjunct2, THEN conjunct2, THEN mp, OF run])
  from same one mounted_mountedScene mounted_nightScene alt two run three
  show ?thesis by blast
qed

section \<open>The claim about \<^verbatim>\<open>formatTime\<close>\<close>

text \<open>
  C10. For every integer \<open>totalMinutes\<close> from \<open>0\<close> to \<open>1439\<close>, \<^verbatim>\<open>formatTime\<close> returns the
  string of five characters \<open>HH:MM\<close> in which \<open>HH\<close> is \<open>\<lfloor>totalMinutes / 60\<rfloor>\<close> and \<open>MM\<close> is
  \<open>totalMinutes mod 60\<close>, each written with two digits; the hour is between \<open>0\<close> and
  \<open>23\<close> and the minute between \<open>0\<close> and \<open>59\<close>.
\<close>

theorem formatTime_correct:
  "0 \<le> t \<and> t \<le> 1439 \<longrightarrow>
     formatTime t = spec_formatTime t \<and>
     length (formatTime t) = 5 \<and>
     0 \<le> t div 60 \<and> t div 60 \<le> 23 \<and> 0 \<le> t mod 60 \<and> t mod 60 \<le> 59"
proof
  assume r: "0 \<le> t \<and> t \<le> 1439"
  then have h: "0 \<le> t div 60" "t div 60 \<le> 23"
    by presburger+
  have m: "0 \<le> t mod 60" "t mod 60 \<le> 59"
    by presburger+
  have "nat (t div 60) < 100" and "nat (t mod 60) < 100"
    using h m by simp_all
  then have "padStart 2 ''0'' (digits (nat (t div 60))) = spec_two_digits (nat (t div 60))"
    and "padStart 2 ''0'' (digits (nat (t mod 60))) = spec_two_digits (nat (t mod 60))"
    by (simp_all add: padStart_digits)
  moreover have "\<not> t div 60 < 0" and "\<not> t mod 60 < 0"
    using h m by linarith+
  then have "toString (t div 60) = digits (nat (t div 60))"
    and "toString (t mod 60) = digits (nat (t mod 60))"
    unfolding toString_def by (simp_all only: if_False)
  moreover have "js_remainder t 60 = t mod 60"
    using r by (simp add: js_remainder_nonneg)
  ultimately have eq: "formatTime t = spec_formatTime t"
    by (simp add: formatTime_def spec_formatTime_def Let_def)
  have "length (spec_formatTime t) = 5"
    by (simp add: spec_formatTime_def spec_two_digits_def)
  with eq h m show "formatTime t = spec_formatTime t \<and>
     length (formatTime t) = 5 \<and>
     0 \<le> t div 60 \<and> t div 60 \<le> 23 \<and> 0 \<le> t mod 60 \<and> t mod 60 \<le> 59"
    by simp
qed

text \<open>
  C10 at five past two in the afternoon, at midnight and at the last minute of the day.
\<close>

theorem formatTime_correct_witness:
  "formatTime 845 = ''14:05'' \<and> formatTime 0 = ''00:00'' \<and> formatTime 1439 = ''23:59''"
proof -
  have "spec_formatTime 845 = ''14:05''" and "spec_formatTime 0 = ''00:00''"
    and "spec_formatTime 1439 = ''23:59''"
    by (simp_all add: spec_formatTime_def spec_two_digits_def digit_char_def)
  then show ?thesis
    using formatTime_correct [of 845] formatTime_correct [of 0] formatTime_correct [of 1439]
    by simp
qed

end
